theory Spec2Isabelle
  imports Main "HOL-Library.Word"
begin

unbundle bit_operations_syntax

section \<open>The NI 16550 transceiver driver (8250\_ni16550.c)\<close>

text \<open>
  A shallow embedding of \<^verbatim>\<open>drivers/tty/serial/8250/8250_ni16550.c\<close>: the
  transceiver enable bit, the RS-485 wire-mode configuration, the RS-232/RS-485 mode
  detection, the clock prescaler sequence and the port setup. The driver's debug
  output (\<^verbatim>\<open>dev_dbg\<close>, \<^verbatim>\<open>dev_vdbg\<close>) changes no state the driver reads
  and is left out.
\<close>

subsection \<open>Machine integers\<close>

text \<open>
  \<^verbatim>\<open>uint8_t\<close> is an 8-bit word; the register masks are combined with it by
  \<^verbatim>\<open>|=\<close> and \<^verbatim>\<open>&=\<close>, whose result C truncates to 8 bits on assignment, which
  is the 8-bit operation. \<^verbatim>\<open>unsigned long\<close> is a 64-bit word (the kernel's LP64),
  so that \<^verbatim>\<open>iobase + offset\<close> wraps as it does in C.
\<close>

type_synonym u8 = "8 word"
type_synonym u32 = "32 word"
type_synonym ulong = "64 word"

subsection \<open>The constants of the file\<close>

definition NI16550_PCR_OFFSET :: int where
  "NI16550_PCR_OFFSET = 0x0F"

definition NI16550_PCR_RS422 :: u8 where
  "NI16550_PCR_RS422 = 0x00"

definition NI16550_PCR_ECHO_RS485 :: u8 where
  "NI16550_PCR_ECHO_RS485 = 0x01"

definition NI16550_PCR_DTR_RS485 :: u8 where
  "NI16550_PCR_DTR_RS485 = 0x02"

definition NI16550_PCR_AUTO_RS485 :: u8 where
  "NI16550_PCR_AUTO_RS485 = 0x03"

definition NI16550_PCR_WIRE_MODE_MASK :: u8 where
  "NI16550_PCR_WIRE_MODE_MASK = 0x03"

definition NI16550_PCR_TXVR_ENABLE_BIT :: u8 where
  "NI16550_PCR_TXVR_ENABLE_BIT = push_bit 3 1"

definition NI16550_PCR_RS485_TERMINATION_BIT :: u8 where
  "NI16550_PCR_RS485_TERMINATION_BIT = push_bit 6 1"

definition NI16550_PMR_OFFSET :: ulong where
  "NI16550_PMR_OFFSET = 0x0E"

definition NI16550_PMR_CAP_MASK :: u8 where
  "NI16550_PMR_CAP_MASK = 0x03"

definition NI16550_PMR_NOT_IMPL :: u8 where
  "NI16550_PMR_NOT_IMPL = 0x00"

definition NI16550_PMR_CAP_RS232 :: u8 where
  "NI16550_PMR_CAP_RS232 = 0x01"

definition NI16550_PMR_CAP_RS485 :: u8 where
  "NI16550_PMR_CAP_RS485 = 0x02"

definition NI16550_PMR_CAP_DUAL :: u8 where
  "NI16550_PMR_CAP_DUAL = 0x03"

definition NI16550_PMR_MODE_MASK :: u8 where
  "NI16550_PMR_MODE_MASK = 0x10"

definition NI16550_PMR_MODE_RS232 :: u8 where
  "NI16550_PMR_MODE_RS232 = 0x00"

definition NI16550_PMR_MODE_RS485 :: u8 where
  "NI16550_PMR_MODE_RS485 = 0x10"

subsection \<open>The constants of the kernel headers\<close>

text \<open>
  The file includes \<^verbatim>\<open>8250.h\<close> and the kernel's serial headers, which are not part
  of the sources at hand. The constants it takes from them are parameters of the
  model: every function below that uses one takes the record \<open>h\<close> of their values,
  and every theorem holds for all values, under the hypotheses it names.
\<close>

record hdr =
  SER_RS485_ENABLED :: u32
  SER_RS485_RTS_ON_SEND :: u32
  SER_RS485_RX_DURING_TX :: u32
  EINVAL :: int
  UART_LCR :: ulong
  UART_EFR :: ulong
  UART_SCR :: ulong
  UART_ICR :: ulong
  UART_LCR_CONF_MODE_B :: u8
  UART_EFR_ECB :: u8
  UART_CPR :: u8

text \<open>
  The values Linux gives these constants (\<^verbatim>\<open>include/uapi/linux/serial.h\<close>,
  \<^verbatim>\<open>serial_reg.h\<close>, \<^verbatim>\<open>errno-base.h\<close>); only the concrete instances of the theorems
  use them.
\<close>

definition linux_hdr :: hdr where
  "linux_hdr = \<lparr>
     SER_RS485_ENABLED = push_bit 0 1,
     SER_RS485_RTS_ON_SEND = push_bit 1 1,
     SER_RS485_RX_DURING_TX = push_bit 4 1,
     EINVAL = 22,
     UART_LCR = 3,
     UART_EFR = 2,
     UART_SCR = 7,
     UART_ICR = 5,
     UART_LCR_CONF_MODE_B = 0xBF,
     UART_EFR_ECB = 0x10,
     UART_CPR = 0x01 \<rparr>"

subsection \<open>Register access\<close>

text \<open>
  The driver reaches the hardware only through byte-wide reads and writes:
  \<^verbatim>\<open>port->serial_in\<close> and \<^verbatim>\<open>port->serial_out\<close> on a port, \<^verbatim>\<open>inb\<close> and
  \<^verbatim>\<open>outb\<close> on the I/O port space. What the hardware answers is not the driver's:
  the device is a state of any type \<open>'d\<close> with a function that answers a read (and
  may change the device) and one that takes a write. The accesses are recorded in
  order, each with its address and its byte, so that what a function reads and
  writes can be stated.
\<close>

datatype 'a access = Reg_read 'a u8 | Reg_write 'a u8

record ('a, 'd) io =
  device :: 'd
  read_reg :: "'d \<Rightarrow> 'a \<Rightarrow> u8 \<times> 'd"
  write_reg :: "'d \<Rightarrow> 'a \<Rightarrow> u8 \<Rightarrow> 'd"
  trace :: "'a access list"

definition io_in :: "('a, 'd) io \<Rightarrow> 'a \<Rightarrow> u8 \<times> ('a, 'd) io" where
  "io_in io a =
     (let (v, d) = read_reg io (device io) a
      in (v, io\<lparr>device := d, trace := trace io @ [Reg_read a v]\<rparr>))"

definition io_out :: "('a, 'd) io \<Rightarrow> 'a \<Rightarrow> u8 \<Rightarrow> ('a, 'd) io" where
  "io_out io a v =
     io\<lparr>device := write_reg io (device io) a v, trace := trace io @ [Reg_write a v]\<rparr>"

fun is_write :: "'a access \<Rightarrow> bool" where
  "is_write (Reg_write a v) = True"
| "is_write (Reg_read a v) = False"

definition writes :: "'a access list \<Rightarrow> 'a access list" where
  "writes t = filter is_write t"

definition reads :: "'a access list \<Rightarrow> 'a access list" where
  "reads t = filter (\<lambda>x. \<not> is_write x) t"

text \<open>\<^verbatim>\<open>inb(addr)\<close> and \<^verbatim>\<open>outb(value, addr)\<close>, on the I/O port space.\<close>

definition inb :: "(ulong, 'd) io \<Rightarrow> ulong \<Rightarrow> u8 \<times> (ulong, 'd) io" where
  "inb io addr = io_in io addr"

definition outb :: "(ulong, 'd) io \<Rightarrow> u8 \<Rightarrow> ulong \<Rightarrow> (ulong, 'd) io" where
  "outb io v addr = io_out io addr v"

subsection \<open>The port\<close>

text \<open>
  Modelled from the spec: \<^verbatim>\<open>struct serial_rs485\<close>, \<^verbatim>\<open>struct txvr_ops\<close> and
  \<^verbatim>\<open>struct uart_port\<close> are declared in headers that are not part of the sources.
  The Bus Configuration is a flag set and timing fields (the delays), which the
  driver does not read. Of the port the driver uses the register accessors, the
  cached configuration \<open>rs485\<close>, the transceiver operation table \<open>txvr_ops\<close> and the
  configuration function \<open>rs485_config\<close>; the accessors read and write bytes
  (section 6 of the specification). The field \<open>regs\<close> holds the two accessors
  \<^verbatim>\<open>serial_in\<close> and \<^verbatim>\<open>serial_out\<close> of the port together with the device they
  reach. A function pointer is the name of the function it points to, a pointer
  that may be unset is an \<open>option\<close>.
\<close>

record serial_rs485 =
  flags :: u32
  delay_rts_before_send :: u32
  delay_rts_after_send :: u32

datatype txvr_fn = Ni16550_enable_transceivers | Ni16550_disable_transceivers

datatype rs485_config_fn = Ni16550_config_rs485

record txvr_ops =
  enable_transceivers :: txvr_fn
  disable_transceivers :: txvr_fn

record 'd uart_port =
  regs :: "(int, 'd) io"
  rs485 :: serial_rs485
  txvr_ops :: "txvr_ops option"
  rs485_config :: "rs485_config_fn option"

text \<open>\<^verbatim>\<open>port->serial_in(port, offset)\<close> and \<^verbatim>\<open>port->serial_out(port, offset, value)\<close>.\<close>

definition serial_in :: "'d uart_port \<Rightarrow> int \<Rightarrow> u8 \<times> 'd uart_port" where
  "serial_in port offset =
     (let (v, io) = io_in (regs port) offset in (v, port\<lparr>regs := io\<rparr>))"

definition serial_out :: "'d uart_port \<Rightarrow> int \<Rightarrow> u8 \<Rightarrow> 'd uart_port" where
  "serial_out port offset v = port\<lparr>regs := io_out (regs port) offset v\<rparr>"

subsection \<open>Transceiver enable control\<close>

definition ni16550_enable_transceivers :: "'d uart_port \<Rightarrow> int \<times> 'd uart_port" where
  "ni16550_enable_transceivers port =
     (let (pcr, port) = serial_in port NI16550_PCR_OFFSET;
          pcr = pcr OR NI16550_PCR_TXVR_ENABLE_BIT;
          port = serial_out port NI16550_PCR_OFFSET pcr
      in (0, port))"

definition ni16550_disable_transceivers :: "'d uart_port \<Rightarrow> int \<times> 'd uart_port" where
  "ni16550_disable_transceivers port =
     (let (pcr, port) = serial_in port NI16550_PCR_OFFSET;
          pcr = pcr AND NOT NI16550_PCR_TXVR_ENABLE_BIT;
          port = serial_out port NI16550_PCR_OFFSET pcr
      in (0, port))"

subsection \<open>Wire-mode configuration\<close>

text \<open>
  \<^verbatim>\<open>BUG_ON(rs485 == NULL)\<close> stops the kernel: the call does not return. The
  argument is a pointer, \<open>None\<close> when it is null, and the result is the fault or
  the returned status with the port as the call leaves it. Inside, the early
  \<^verbatim>\<open>return -EINVAL\<close> is the \<open>Inl\<close> branch of the value the flag analysis
  computes; the other branches carry the register value on to the write.
\<close>

datatype fault = BUG

definition ni16550_config_rs485 ::
  "hdr \<Rightarrow> 'd uart_port \<Rightarrow> serial_rs485 option \<Rightarrow> fault + (int \<times> 'd uart_port)" where
  "ni16550_config_rs485 h port rs485_ptr =
     (case rs485_ptr of
        None \<Rightarrow> Inl BUG
      | Some cfg \<Rightarrow>
          (let (pcr, port) = serial_in port NI16550_PCR_OFFSET;
               pcr = pcr AND NOT NI16550_PCR_WIRE_MODE_MASK
           in case (if flags cfg AND SER_RS485_ENABLED h \<noteq> 0 then
                      if flags cfg AND SER_RS485_RX_DURING_TX h \<noteq> 0 \<and>
                         flags cfg AND SER_RS485_RTS_ON_SEND h \<noteq> 0
                      then Inl (- EINVAL h)
                      else if flags cfg AND SER_RS485_RX_DURING_TX h \<noteq> 0
                      then Inr (pcr OR NI16550_PCR_ECHO_RS485)
                      else if flags cfg AND SER_RS485_RTS_ON_SEND h \<noteq> 0
                      then Inr (pcr OR NI16550_PCR_AUTO_RS485)
                      else Inr (pcr OR NI16550_PCR_DTR_RS485)
                    else Inr (pcr OR NI16550_PCR_RS422)) of
                Inl err \<Rightarrow> Inr (err, port)
              | Inr pcr \<Rightarrow>
                  (let port = serial_out port NI16550_PCR_OFFSET pcr;
                       port = port\<lparr>rs485 := cfg\<rparr>
                   in Inr (0, port))))"

text \<open>
  The three flag tests of the function, \<^verbatim>\<open>rs485->flags & SER_RS485_...\<close>, named for
  the statements below.
\<close>

definition rs485_enabled :: "hdr \<Rightarrow> serial_rs485 \<Rightarrow> bool" where
  "rs485_enabled h cfg = (flags cfg AND SER_RS485_ENABLED h \<noteq> 0)"

definition rx_during_tx :: "hdr \<Rightarrow> serial_rs485 \<Rightarrow> bool" where
  "rx_during_tx h cfg = (flags cfg AND SER_RS485_RX_DURING_TX h \<noteq> 0)"

definition rts_on_send :: "hdr \<Rightarrow> serial_rs485 \<Rightarrow> bool" where
  "rts_on_send h cfg = (flags cfg AND SER_RS485_RTS_ON_SEND h \<noteq> 0)"

text \<open>
  The wire-mode encoding as the specification words it (section 4.2, step 3, and the
  tie-break rule), to compare the function with: 4-wire is 0, 2-wire with echo 1,
  2-wire DTR-controlled 2, 2-wire auto 3; echo goes before auto.
\<close>

definition wire_mode_spec :: "bool \<Rightarrow> bool \<Rightarrow> bool \<Rightarrow> u8" where
  "wire_mode_spec enabled echo auto =
     (if \<not> enabled then 0 else if echo then 1 else if auto then 3 else 2)"

text \<open>
  A sequence of calls on one port, each with a configuration (a non-null pointer):
  the calls made, each with the status it returned, and the port after the last.
\<close>

fun config_calls ::
  "hdr \<Rightarrow> 'd uart_port \<Rightarrow> serial_rs485 list \<Rightarrow>
     fault + ((serial_rs485 \<times> int) list \<times> 'd uart_port)" where
  "config_calls h port [] = Inr ([], port)"
| "config_calls h port (cfg # cfgs) =
     (case ni16550_config_rs485 h port (Some cfg) of
        Inl f \<Rightarrow> Inl f
      | Inr (status, port1) \<Rightarrow>
          (case config_calls h port1 cfgs of
             Inl f \<Rightarrow> Inl f
           | Inr (calls, port2) \<Rightarrow> Inr ((cfg, status) # calls, port2)))"

text \<open>
  The argument of the last call of a log that returned success (status 0), or
  \<open>init\<close> when none did.
\<close>

fun last_success :: "serial_rs485 \<Rightarrow> (serial_rs485 \<times> int) list \<Rightarrow> serial_rs485" where
  "last_success init [] = init"
| "last_success init ((cfg, status) # calls) =
     last_success (if status = 0 then cfg else init) calls"

subsection \<open>Mode detection\<close>

definition is_rs232_mode :: "(ulong, 'd) io \<Rightarrow> ulong \<Rightarrow> bool \<times> (ulong, 'd) io" where
  "is_rs232_mode io iobase =
     (let (pmr, io) = inb io (iobase + NI16550_PMR_OFFSET)
      in if pmr AND NI16550_PMR_CAP_MASK = NI16550_PMR_NOT_IMPL then (False, io)
         else if pmr AND NI16550_PMR_CAP_MASK = NI16550_PMR_CAP_DUAL
         then (pmr AND NI16550_PMR_MODE_MASK = NI16550_PMR_MODE_RS232, io)
         else (pmr AND NI16550_PMR_CAP_MASK = NI16550_PMR_CAP_RS232, io))"

subsection \<open>Prescaler configuration\<close>

definition ni16550_config_prescaler ::
  "hdr \<Rightarrow> (ulong, 'd) io \<Rightarrow> ulong \<Rightarrow> u8 \<Rightarrow> (ulong, 'd) io" where
  "ni16550_config_prescaler h io iobase prescaler =
     (let (lcr_value, io) = inb io (iobase + UART_LCR h);
          io = outb io (UART_LCR_CONF_MODE_B h) (iobase + UART_LCR h);
          (efr_value, io) = inb io (iobase + UART_EFR h);
          efr_value = efr_value OR UART_EFR_ECB h;
          io = outb io efr_value (iobase + UART_EFR h);
          io = outb io lcr_value (iobase + UART_LCR h);
          io = outb io (UART_CPR h) (iobase + UART_SCR h);
          io = outb io prescaler (iobase + UART_ICR h)
      in io)"

subsection \<open>Port setup\<close>

definition ni16550_txvr_ops :: txvr_ops where
  "ni16550_txvr_ops =
     \<lparr>enable_transceivers = Ni16550_enable_transceivers,
      disable_transceivers = Ni16550_disable_transceivers\<rparr>"

definition ni16550_port_setup :: "hdr \<Rightarrow> 'd uart_port \<Rightarrow> 'd uart_port" where
  "ni16550_port_setup h port =
     (let port = port\<lparr>txvr_ops := Some ni16550_txvr_ops\<rparr>;
          port = port\<lparr>rs485_config := Some Ni16550_config_rs485\<rparr>;
          port = port\<lparr>rs485 := (rs485 port)
                   \<lparr>flags := SER_RS485_ENABLED h OR SER_RS485_RTS_ON_SEND h\<rparr>\<rparr>
      in port)"

text \<open>A call through a function pointer runs the function the pointer names.\<close>

fun call_txvr :: "txvr_fn \<Rightarrow> 'd uart_port \<Rightarrow> int \<times> 'd uart_port" where
  "call_txvr Ni16550_enable_transceivers port = ni16550_enable_transceivers port"
| "call_txvr Ni16550_disable_transceivers port = ni16550_disable_transceivers port"

fun call_rs485_config ::
  "hdr \<Rightarrow> rs485_config_fn \<Rightarrow> 'd uart_port \<Rightarrow> serial_rs485 option \<Rightarrow>
     fault + (int \<times> 'd uart_port)" where
  "call_rs485_config h Ni16550_config_rs485 port rs485_ptr =
     ni16550_config_rs485 h port rs485_ptr"

subsection \<open>A register file, for concrete instances\<close>

text \<open>
  The simplest device: every register keeps the last byte written to it, and a read
  returns it and changes nothing.
\<close>

definition regfile_read :: "('a \<Rightarrow> u8) \<Rightarrow> 'a \<Rightarrow> u8 \<times> ('a \<Rightarrow> u8)" where
  "regfile_read d a = (d a, d)"

definition regfile_write :: "('a \<Rightarrow> u8) \<Rightarrow> 'a \<Rightarrow> u8 \<Rightarrow> ('a \<Rightarrow> u8)" where
  "regfile_write d a v = d(a := v)"

definition regfile :: "('a \<Rightarrow> u8) \<Rightarrow> ('a, 'a \<Rightarrow> u8) io" where
  "regfile d = \<lparr>device = d, read_reg = regfile_read, write_reg = regfile_write, trace = []\<rparr>"

text \<open>
  A device keeps a register when a read of it answers the byte last written to it.
\<close>

definition keeps_register :: "('a, 'd) io \<Rightarrow> 'a \<Rightarrow> bool" where
  "keeps_register io a = (\<forall>d v. fst (read_reg io (write_reg io d a v) a) = v)"

text \<open>What a read of a register would answer now, and the device as that read leaves it.\<close>

definition reg_value :: "('a, 'd) io \<Rightarrow> 'a \<Rightarrow> u8" where
  "reg_value io a = fst (read_reg io (device io) a)"

definition after_read :: "('a, 'd) io \<Rightarrow> 'a \<Rightarrow> 'd" where
  "after_read io a = snd (read_reg io (device io) a)"

text \<open>A port on a register file, with a configuration cached and nothing bound.\<close>

definition regfile_port :: "(int \<Rightarrow> u8) \<Rightarrow> serial_rs485 \<Rightarrow> (int \<Rightarrow> u8) uart_port" where
  "regfile_port d cfg =
     \<lparr>regs = regfile d, rs485 = cfg, txvr_ops = None, rs485_config = None\<rparr>"

definition rs485_cfg :: "u32 \<Rightarrow> serial_rs485" where
  "rs485_cfg f = \<lparr>flags = f, delay_rts_before_send = 0, delay_rts_after_send = 0\<rparr>"

section \<open>Bits of the register constants\<close>

lemma bit_8_int: "bit (8::int) n = (n = 3)"
proof -
  have "(8::int) = 2 ^ 3" by simp
  then show ?thesis by (simp only: bit_exp_iff) auto
qed

lemma bit_16_int: "bit (16::int) n = (n = 4)"
proof -
  have "(16::int) = 2 ^ 4" by simp
  then show ?thesis by (simp only: bit_exp_iff) auto
qed

lemma bit_64_int: "bit (64::int) n = (n = 6)"
proof -
  have "(64::int) = 2 ^ 6" by simp
  then show ?thesis by (simp only: bit_exp_iff) auto
qed

lemma bit_3_int: "bit (3::int) n = (n < 2)"
proof -
  have e: "(3::int) = mask 2" by (simp add: mask_eq_exp_minus_1)
  show ?thesis by (subst e) (auto simp: bit_mask_iff)
qed

lemma bit_TXVR_ENABLE_BIT: "bit NI16550_PCR_TXVR_ENABLE_BIT n = (n = 3)"
  by (auto simp: NI16550_PCR_TXVR_ENABLE_BIT_def bit_8_int)

lemma bit_RS485_TERMINATION_BIT: "bit NI16550_PCR_RS485_TERMINATION_BIT n = (n = 6)"
  by (auto simp: NI16550_PCR_RS485_TERMINATION_BIT_def bit_64_int)

lemma bit_WIRE_MODE_MASK: "bit NI16550_PCR_WIRE_MODE_MASK n = (n < 2)"
  by (auto simp: NI16550_PCR_WIRE_MODE_MASK_def bit_3_int)

lemma bit_PMR_CAP_MASK: "bit NI16550_PMR_CAP_MASK n = (n < 2)"
  by (auto simp: NI16550_PMR_CAP_MASK_def bit_3_int)

lemma bit_PMR_MODE_MASK: "bit NI16550_PMR_MODE_MASK n = (n = 4)"
  by (auto simp: NI16550_PMR_MODE_MASK_def bit_16_int)

text \<open>Replacing a field: the field takes the new value, the rest keeps the old.\<close>

lemma field_replaced:
  fixes v k m :: "'a::len word"
  assumes "k AND m = k"
  shows "((v AND NOT m) OR k) AND m = k"
proof -
  have "((v AND NOT m) OR k) AND m = k AND m"
    by (rule bit_word_eqI) (auto simp: bit_and_iff bit_or_iff bit_not_iff)
  with assms show ?thesis by simp
qed

lemma field_frame:
  fixes v k m :: "'a::len word"
  assumes "k AND m = k"
  shows "((v AND NOT m) OR k) AND NOT m = v AND NOT m"
proof (rule bit_word_eqI)
  fix n assume "n < LENGTH('a)"
  have "bit k n = (bit k n \<and> bit m n)"
    by (subst assms [symmetric]) (simp add: bit_and_iff)
  then show "bit (((v AND NOT m) OR k) AND NOT m) n = bit (v AND NOT m) n"
    by (auto simp: bit_and_iff bit_or_iff bit_not_iff)
qed

lemma cap_bits:
  "v AND NI16550_PMR_CAP_MASK =
     (if bit v 1 then 2 else 0) OR (if bit v 0 then 1 else 0)"
proof (rule bit_word_eqI)
  fix n assume "n < LENGTH(8)"
  consider "n = 0" | "n = 1" | "2 \<le> n" by linarith
  then show "bit (v AND NI16550_PMR_CAP_MASK) n =
     bit ((if bit v 1 then 2 else 0) OR (if bit v 0 then 1 else 0) :: u8) n"
    by cases (auto simp: bit_and_iff bit_or_iff bit_PMR_CAP_MASK bit_1_iff bit_2_iff)
qed

lemma mode_bit:
  "v AND NI16550_PMR_MODE_MASK = (if bit v 4 then 16 else 0)"
  by (rule bit_word_eqI) (auto simp: bit_and_iff bit_PMR_MODE_MASK bit_16_int)

lemma enable_bits: "bit (v OR NI16550_PCR_TXVR_ENABLE_BIT) n = (n = 3 \<or> bit v n)"
  by (auto simp: bit_or_iff bit_TXVR_ENABLE_BIT)

lemma disable_bits: "bit (v AND NOT NI16550_PCR_TXVR_ENABLE_BIT) n = (n \<noteq> 3 \<and> bit v n)"
  by (auto simp: bit_and_iff bit_not_iff bit_TXVR_ENABLE_BIT dest: bit_imp_le_length)

lemma enable_frame_mask:
  "(v OR NI16550_PCR_TXVR_ENABLE_BIT) AND NI16550_PCR_WIRE_MODE_MASK =
   v AND NI16550_PCR_WIRE_MODE_MASK"
  by (rule bit_word_eqI)
    (auto simp: bit_and_iff bit_or_iff bit_TXVR_ENABLE_BIT bit_WIRE_MODE_MASK)

lemma disable_frame_mask:
  "(v AND NOT NI16550_PCR_TXVR_ENABLE_BIT) AND NI16550_PCR_WIRE_MODE_MASK =
   v AND NI16550_PCR_WIRE_MODE_MASK"
  by (rule bit_word_eqI)
    (auto simp: bit_and_iff bit_not_iff bit_TXVR_ENABLE_BIT bit_WIRE_MODE_MASK)

lemma enable_frame_termination:
  "(v OR NI16550_PCR_TXVR_ENABLE_BIT) AND NI16550_PCR_RS485_TERMINATION_BIT =
   v AND NI16550_PCR_RS485_TERMINATION_BIT"
  by (rule bit_word_eqI)
    (auto simp: bit_and_iff bit_or_iff bit_TXVR_ENABLE_BIT bit_RS485_TERMINATION_BIT)

lemma disable_frame_termination:
  "(v AND NOT NI16550_PCR_TXVR_ENABLE_BIT) AND NI16550_PCR_RS485_TERMINATION_BIT =
   v AND NI16550_PCR_RS485_TERMINATION_BIT"
  by (rule bit_word_eqI)
    (auto simp: bit_and_iff bit_not_iff bit_TXVR_ENABLE_BIT bit_RS485_TERMINATION_BIT)

section \<open>What each function does to the port\<close>

lemma serial_in_unfold:
  "serial_in port a =
     (reg_value (regs port) a,
      port\<lparr>regs := (regs port)\<lparr>device := after_read (regs port) a,
                trace := trace (regs port) @ [Reg_read a (reg_value (regs port) a)]\<rparr>\<rparr>)"
  by (simp add: serial_in_def io_in_def reg_value_def after_read_def split: prod.split)

lemma inb_unfold:
  "inb io a =
     (reg_value io a,
      io\<lparr>device := after_read io a, trace := trace io @ [Reg_read a (reg_value io a)]\<rparr>)"
  by (simp add: inb_def io_in_def reg_value_def after_read_def split: prod.split)

lemma enable_unfold:
  "ni16550_enable_transceivers port =
     (0, port\<lparr>regs := (regs port)
           \<lparr>device := write_reg (regs port) (after_read (regs port) NI16550_PCR_OFFSET)
                        NI16550_PCR_OFFSET
                        (reg_value (regs port) NI16550_PCR_OFFSET OR
                         NI16550_PCR_TXVR_ENABLE_BIT),
            trace := trace (regs port) @
              [Reg_read NI16550_PCR_OFFSET (reg_value (regs port) NI16550_PCR_OFFSET),
               Reg_write NI16550_PCR_OFFSET
                 (reg_value (regs port) NI16550_PCR_OFFSET OR
                  NI16550_PCR_TXVR_ENABLE_BIT)]\<rparr>\<rparr>)"
  by (simp add: ni16550_enable_transceivers_def serial_in_unfold serial_out_def
      io_out_def Let_def)

lemma disable_unfold:
  "ni16550_disable_transceivers port =
     (0, port\<lparr>regs := (regs port)
           \<lparr>device := write_reg (regs port) (after_read (regs port) NI16550_PCR_OFFSET)
                        NI16550_PCR_OFFSET
                        (reg_value (regs port) NI16550_PCR_OFFSET AND
                         NOT NI16550_PCR_TXVR_ENABLE_BIT),
            trace := trace (regs port) @
              [Reg_read NI16550_PCR_OFFSET (reg_value (regs port) NI16550_PCR_OFFSET),
               Reg_write NI16550_PCR_OFFSET
                 (reg_value (regs port) NI16550_PCR_OFFSET AND
                  NOT NI16550_PCR_TXVR_ENABLE_BIT)]\<rparr>\<rparr>)"
  by (simp add: ni16550_disable_transceivers_def serial_in_unfold serial_out_def
      io_out_def Let_def)

lemma enable_accesses:
  "reads (trace (regs (snd (ni16550_enable_transceivers port)))) =
     reads (trace (regs port)) @
       [Reg_read NI16550_PCR_OFFSET (reg_value (regs port) NI16550_PCR_OFFSET)]"
  "writes (trace (regs (snd (ni16550_enable_transceivers port)))) =
     writes (trace (regs port)) @
       [Reg_write NI16550_PCR_OFFSET
          (reg_value (regs port) NI16550_PCR_OFFSET OR NI16550_PCR_TXVR_ENABLE_BIT)]"
  by (simp_all add: enable_unfold reads_def writes_def)

lemma disable_accesses:
  "reads (trace (regs (snd (ni16550_disable_transceivers port)))) =
     reads (trace (regs port)) @
       [Reg_read NI16550_PCR_OFFSET (reg_value (regs port) NI16550_PCR_OFFSET)]"
  "writes (trace (regs (snd (ni16550_disable_transceivers port)))) =
     writes (trace (regs port)) @
       [Reg_write NI16550_PCR_OFFSET
          (reg_value (regs port) NI16550_PCR_OFFSET AND NOT NI16550_PCR_TXVR_ENABLE_BIT)]"
  by (simp_all add: disable_unfold reads_def writes_def)

lemma wire_mode_codes:
  "wire_mode_spec en echo auto AND NI16550_PCR_WIRE_MODE_MASK = wire_mode_spec en echo auto"
  by (simp add: wire_mode_spec_def NI16550_PCR_WIRE_MODE_MASK_def)

lemma config_unfold:
  "ni16550_config_rs485 h port (Some cfg) =
     (let v = reg_value (regs port) NI16550_PCR_OFFSET;
          d = after_read (regs port) NI16550_PCR_OFFSET;
          w = (v AND NOT NI16550_PCR_WIRE_MODE_MASK) OR
              wire_mode_spec (rs485_enabled h cfg) (rx_during_tx h cfg) (rts_on_send h cfg)
      in if rs485_enabled h cfg \<and> rx_during_tx h cfg \<and> rts_on_send h cfg
         then Inr (- EINVAL h,
                port\<lparr>regs := (regs port)
                  \<lparr>device := d,
                   trace := trace (regs port) @ [Reg_read NI16550_PCR_OFFSET v]\<rparr>\<rparr>)
         else Inr (0,
                port\<lparr>regs := (regs port)
                  \<lparr>device := write_reg (regs port) d NI16550_PCR_OFFSET w,
                   trace := trace (regs port) @
                     [Reg_read NI16550_PCR_OFFSET v, Reg_write NI16550_PCR_OFFSET w]\<rparr>,
                  rs485 := cfg\<rparr>))"
  by (simp add: ni16550_config_rs485_def serial_in_unfold serial_out_def io_out_def Let_def
      rs485_enabled_def rx_during_tx_def rts_on_send_def wire_mode_spec_def
      NI16550_PCR_RS422_def NI16550_PCR_ECHO_RS485_def NI16550_PCR_DTR_RS485_def
      NI16550_PCR_AUTO_RS485_def)

lemma config_status_cache:
  "\<exists>port'. ni16550_config_rs485 h port (Some cfg) =
       Inr (if rs485_enabled h cfg \<and> rx_during_tx h cfg \<and> rts_on_send h cfg
            then - EINVAL h else 0, port') \<and>
     rs485 port' =
       (if rs485_enabled h cfg \<and> rx_during_tx h cfg \<and> rts_on_send h cfg
        then rs485 port else cfg)"
  by (simp add: config_unfold Let_def)

text \<open>Bits outside the wire-mode field, when the field is all that changed.\<close>

lemma mask_frame_enable:
  assumes "w AND NOT NI16550_PCR_WIRE_MODE_MASK = v AND NOT NI16550_PCR_WIRE_MODE_MASK"
  shows "w AND NI16550_PCR_TXVR_ENABLE_BIT = v AND NI16550_PCR_TXVR_ENABLE_BIT"
proof (rule bit_word_eqI)
  fix n assume "n < LENGTH(8)"
  from assms have "bit (w AND NOT NI16550_PCR_WIRE_MODE_MASK) 3 =
      bit (v AND NOT NI16550_PCR_WIRE_MODE_MASK) 3" by simp
  then have "bit w 3 = bit v 3"
    by (simp add: bit_and_iff bit_not_iff bit_WIRE_MODE_MASK)
  then show "bit (w AND NI16550_PCR_TXVR_ENABLE_BIT) n =
      bit (v AND NI16550_PCR_TXVR_ENABLE_BIT) n"
    by (auto simp: bit_and_iff bit_TXVR_ENABLE_BIT)
qed

lemma mask_frame_termination:
  assumes "w AND NOT NI16550_PCR_WIRE_MODE_MASK = v AND NOT NI16550_PCR_WIRE_MODE_MASK"
  shows "w AND NI16550_PCR_RS485_TERMINATION_BIT = v AND NI16550_PCR_RS485_TERMINATION_BIT"
proof (rule bit_word_eqI)
  fix n assume "n < LENGTH(8)"
  from assms have "bit (w AND NOT NI16550_PCR_WIRE_MODE_MASK) 6 =
      bit (v AND NOT NI16550_PCR_WIRE_MODE_MASK) 6" by simp
  then have "bit w 6 = bit v 6"
    by (simp add: bit_and_iff bit_not_iff bit_WIRE_MODE_MASK)
  then show "bit (w AND NI16550_PCR_RS485_TERMINATION_BIT) n =
      bit (v AND NI16550_PCR_RS485_TERMINATION_BIT) n"
    by (auto simp: bit_and_iff bit_RS485_TERMINATION_BIT)
qed

lemma mask_frame_bits:
  assumes "w AND NOT NI16550_PCR_WIRE_MODE_MASK = v AND NOT NI16550_PCR_WIRE_MODE_MASK"
  shows "bit w (n + 2) = bit v (n + 2)"
proof -
  from assms have "bit (w AND NOT NI16550_PCR_WIRE_MODE_MASK) (n + 2) =
      bit (v AND NOT NI16550_PCR_WIRE_MODE_MASK) (n + 2)" by simp
  then show ?thesis
    by (auto simp: bit_and_iff bit_not_iff bit_WIRE_MODE_MASK dest: bit_imp_le_length)
qed

text \<open>The accessors of the port stay the same, and with them what the device keeps.\<close>

lemma enable_regs:
  "read_reg (regs (snd (ni16550_enable_transceivers port))) = read_reg (regs port)"
  "write_reg (regs (snd (ni16550_enable_transceivers port))) = write_reg (regs port)"
  by (simp_all add: enable_unfold)

lemma disable_regs:
  "read_reg (regs (snd (ni16550_disable_transceivers port))) = read_reg (regs port)"
  "write_reg (regs (snd (ni16550_disable_transceivers port))) = write_reg (regs port)"
  by (simp_all add: disable_unfold)

lemma enable_keeps:
  "keeps_register (regs (snd (ni16550_enable_transceivers port))) a =
   keeps_register (regs port) a"
  by (simp add: keeps_register_def enable_regs)

lemma disable_keeps:
  "keeps_register (regs (snd (ni16550_disable_transceivers port))) a =
   keeps_register (regs port) a"
  by (simp add: keeps_register_def disable_regs)

lemma enable_value:
  assumes "keeps_register (regs port) NI16550_PCR_OFFSET"
  shows "reg_value (regs (snd (ni16550_enable_transceivers port))) NI16550_PCR_OFFSET =
     reg_value (regs port) NI16550_PCR_OFFSET OR NI16550_PCR_TXVR_ENABLE_BIT"
  using assms by (simp add: enable_unfold keeps_register_def reg_value_def)

lemma disable_value:
  assumes "keeps_register (regs port) NI16550_PCR_OFFSET"
  shows "reg_value (regs (snd (ni16550_disable_transceivers port))) NI16550_PCR_OFFSET =
     reg_value (regs port) NI16550_PCR_OFFSET AND NOT NI16550_PCR_TXVR_ENABLE_BIT"
  using assms by (simp add: disable_unfold keeps_register_def reg_value_def)

lemma or_and_left:
  fixes a b :: "'a::len word"
  shows "(a OR b) AND a = a" "(a OR b) AND b = b"
  by (rule bit_word_eqI, auto simp: bit_and_iff bit_or_iff)+

lemma or_and_not:
  fixes a b :: "'a::len word"
  shows "(a OR b) AND NOT b = a AND NOT b"
  by (rule bit_word_eqI) (auto simp: bit_and_iff bit_or_iff bit_not_iff)

section \<open>Concrete instances: Linux's constants, a register file\<close>

lemma linux_EINVAL: "EINVAL linux_hdr \<noteq> 0"
  by (simp add: linux_hdr_def)

lemma linux_EINVAL_22: "EINVAL linux_hdr = 22"
  by (simp add: linux_hdr_def)

text \<open>Flags \<open>0x11\<close>: enabled with echo. Flags \<open>0x13\<close>: enabled with echo and auto.\<close>

lemma linux_flags:
  "rs485_enabled linux_hdr (rs485_cfg 0x11)" "rx_during_tx linux_hdr (rs485_cfg 0x11)"
  "\<not> rts_on_send linux_hdr (rs485_cfg 0x11)"
  by (simp_all add: rs485_enabled_def rx_during_tx_def rts_on_send_def linux_hdr_def
      rs485_cfg_def)

lemma linux_flags_rejected:
  "rs485_enabled linux_hdr (rs485_cfg 0x13)" "rx_during_tx linux_hdr (rs485_cfg 0x13)"
  "rts_on_send linux_hdr (rs485_cfg 0x13)"
  by (simp_all add: rs485_enabled_def rx_during_tx_def rts_on_send_def linux_hdr_def
      rs485_cfg_def)

lemma demo_accepted:
  "ni16550_config_rs485 linux_hdr (regfile_port (\<lambda>a. 0x4B) (rs485_cfg 0))
     (Some (rs485_cfg 0x11)) =
     Inr (0, \<lparr>regs = \<lparr>device = (\<lambda>a. 0x4B)(0x0F := 0x49), read_reg = regfile_read,
                      write_reg = regfile_write,
                      trace = [Reg_read 0x0F 0x4B, Reg_write 0x0F 0x49]\<rparr>,
              rs485 = rs485_cfg 0x11, txvr_ops = None, rs485_config = None\<rparr>)"
  by (simp add: config_unfold linux_flags wire_mode_spec_def Let_def NI16550_PCR_OFFSET_def
        NI16550_PCR_WIRE_MODE_MASK_def regfile_port_def regfile_def regfile_read_def
        regfile_write_def reg_value_def after_read_def)

lemma demo_rejected:
  "ni16550_config_rs485 linux_hdr (regfile_port (\<lambda>a. 0x4B) (rs485_cfg 0))
     (Some (rs485_cfg 0x13)) =
     Inr (- 22, \<lparr>regs = \<lparr>device = (\<lambda>a. 0x4B), read_reg = regfile_read,
                      write_reg = regfile_write,
                      trace = [Reg_read 0x0F 0x4B]\<rparr>,
              rs485 = rs485_cfg 0, txvr_ops = None, rs485_config = None\<rparr>)"
  by (simp add: config_unfold linux_flags_rejected Let_def NI16550_PCR_OFFSET_def
      regfile_port_def regfile_def regfile_read_def reg_value_def after_read_def
      linux_EINVAL_22)

lemma regfile_keeps: "keeps_register (regs (regfile_port d cfg)) a"
  by (simp add: keeps_register_def regfile_port_def regfile_def regfile_read_def
      regfile_write_def)

section \<open>The claims\<close>

text \<open>
  C7. Whatever the mode-control register answers to the read, enable writes that byte
  back with the enable bit (bit 3) set and disable writes it back with the bit
  cleared; every other bit of the byte written, the wire-mode field and the
  termination bit among them, is the bit read. Each call makes one read and then
  one write of the register (the reads of the trace grow by that one read, its
  writes by that one write), changes nothing else of the port, and returns 0.
\<close>

theorem transceivers_read_modify_write:
  "let v = reg_value (regs port) NI16550_PCR_OFFSET;
       d = after_read (regs port) NI16550_PCR_OFFSET;
       on = v OR NI16550_PCR_TXVR_ENABLE_BIT;
       off = v AND NOT NI16550_PCR_TXVR_ENABLE_BIT
   in ni16550_enable_transceivers port =
        (0, port\<lparr>regs := (regs port)
              \<lparr>device := write_reg (regs port) d NI16550_PCR_OFFSET on,
               trace := trace (regs port) @
                 [Reg_read NI16550_PCR_OFFSET v, Reg_write NI16550_PCR_OFFSET on]\<rparr>\<rparr>) \<and>
      ni16550_disable_transceivers port =
        (0, port\<lparr>regs := (regs port)
              \<lparr>device := write_reg (regs port) d NI16550_PCR_OFFSET off,
               trace := trace (regs port) @
                 [Reg_read NI16550_PCR_OFFSET v, Reg_write NI16550_PCR_OFFSET off]\<rparr>\<rparr>) \<and>
      (\<forall>n. bit on n = (n = 3 \<or> bit v n)) \<and>
      (\<forall>n. bit off n = (n \<noteq> 3 \<and> bit v n)) \<and>
      on AND NI16550_PCR_WIRE_MODE_MASK = v AND NI16550_PCR_WIRE_MODE_MASK \<and>
      off AND NI16550_PCR_WIRE_MODE_MASK = v AND NI16550_PCR_WIRE_MODE_MASK \<and>
      on AND NI16550_PCR_RS485_TERMINATION_BIT = v AND NI16550_PCR_RS485_TERMINATION_BIT \<and>
      off AND NI16550_PCR_RS485_TERMINATION_BIT = v AND NI16550_PCR_RS485_TERMINATION_BIT \<and>
      reads (trace (regs (snd (ni16550_enable_transceivers port)))) =
        reads (trace (regs port)) @ [Reg_read NI16550_PCR_OFFSET v] \<and>
      writes (trace (regs (snd (ni16550_enable_transceivers port)))) =
        writes (trace (regs port)) @ [Reg_write NI16550_PCR_OFFSET on] \<and>
      reads (trace (regs (snd (ni16550_disable_transceivers port)))) =
        reads (trace (regs port)) @ [Reg_read NI16550_PCR_OFFSET v] \<and>
      writes (trace (regs (snd (ni16550_disable_transceivers port)))) =
        writes (trace (regs port)) @ [Reg_write NI16550_PCR_OFFSET off]"
  unfolding Let_def
  by (intro conjI allI enable_unfold disable_unfold enable_bits disable_bits
      enable_frame_mask disable_frame_mask enable_frame_termination
      disable_frame_termination enable_accesses disable_accesses)

text \<open>
  C1. When the call accepts a configuration (it returns 0), it reads the mode-control
  register once and writes it once, and the 2-bit wire-mode field of the byte
  written is the encoding the specification's case analysis gives: 4-wire (0) when
  the enabled flag is clear, whatever the other two flags; with the flag set,
  2-wire with echo (1) when receive-during-transmit is set, else 2-wire auto (3) when
  RTS-follows-send is set, else 2-wire DTR-controlled (2). The last conjunct says the
  same with the flag tests and the constants of the source.
\<close>

theorem config_rs485_wire_mode:
  assumes "EINVAL h \<noteq> 0"
    and "ni16550_config_rs485 h port (Some cfg) = Inr (0, port')"
  shows "\<exists>v w. trace (regs port') =
            trace (regs port) @
              [Reg_read NI16550_PCR_OFFSET v, Reg_write NI16550_PCR_OFFSET w] \<and>
          w AND NI16550_PCR_WIRE_MODE_MASK =
            wire_mode_spec (rs485_enabled h cfg) (rx_during_tx h cfg) (rts_on_send h cfg) \<and>
          w AND NI16550_PCR_WIRE_MODE_MASK =
            (if flags cfg AND SER_RS485_ENABLED h = 0 then NI16550_PCR_RS422
             else if flags cfg AND SER_RS485_RX_DURING_TX h \<noteq> 0 then NI16550_PCR_ECHO_RS485
             else if flags cfg AND SER_RS485_RTS_ON_SEND h \<noteq> 0 then NI16550_PCR_AUTO_RS485
             else NI16550_PCR_DTR_RS485)"
proof -
  let ?v = "reg_value (regs port) NI16550_PCR_OFFSET"
  let ?k = "wire_mode_spec (rs485_enabled h cfg) (rx_during_tx h cfg) (rts_on_send h cfg)"
  let ?w = "(?v AND NOT NI16550_PCR_WIRE_MODE_MASK) OR ?k"
  from assms have ok: "\<not> (rs485_enabled h cfg \<and> rx_during_tx h cfg \<and> rts_on_send h cfg)"
    by (auto simp: config_unfold Let_def split: if_splits)
  with assms(2) have tr: "trace (regs port') =
      trace (regs port) @ [Reg_read NI16550_PCR_OFFSET ?v, Reg_write NI16550_PCR_OFFSET ?w]"
    by (auto simp: config_unfold Let_def)
  have f: "?w AND NI16550_PCR_WIRE_MODE_MASK = ?k"
    by (rule field_replaced) (rule wire_mode_codes)
  have k: "?k = (if flags cfg AND SER_RS485_ENABLED h = 0 then NI16550_PCR_RS422
             else if flags cfg AND SER_RS485_RX_DURING_TX h \<noteq> 0 then NI16550_PCR_ECHO_RS485
             else if flags cfg AND SER_RS485_RTS_ON_SEND h \<noteq> 0 then NI16550_PCR_AUTO_RS485
             else NI16550_PCR_DTR_RS485)"
    by (simp add: wire_mode_spec_def rs485_enabled_def rx_during_tx_def rts_on_send_def
        NI16550_PCR_RS422_def NI16550_PCR_ECHO_RS485_def NI16550_PCR_DTR_RS485_def
        NI16550_PCR_AUTO_RS485_def)
  from tr f k show ?thesis by metis
qed

text \<open>
  With Linux's constants, on a register file whose registers all hold \<open>0x4B\<close>: the
  flags \<open>0x11\<close> (enabled, echo) are accepted, \<open>0x49\<close> is written, its field is 1.
\<close>

theorem config_rs485_wire_mode_witness:
  "EINVAL linux_hdr \<noteq> 0 \<and>
   ni16550_config_rs485 linux_hdr (regfile_port (\<lambda>a. 0x4B) (rs485_cfg 0))
     (Some (rs485_cfg 0x11)) =
     Inr (0, \<lparr>regs = \<lparr>device = (\<lambda>a. 0x4B)(0x0F := 0x49), read_reg = regfile_read,
                      write_reg = regfile_write,
                      trace = [Reg_read 0x0F 0x4B, Reg_write 0x0F 0x49]\<rparr>,
              rs485 = rs485_cfg 0x11, txvr_ops = None, rs485_config = None\<rparr>) \<and>
   (\<exists>v w. [Reg_read (0x0F::int) 0x4B, Reg_write 0x0F 0x49] =
            [Reg_read NI16550_PCR_OFFSET v, Reg_write NI16550_PCR_OFFSET w] \<and>
          w AND NI16550_PCR_WIRE_MODE_MASK = 1)"
proof -
  from config_rs485_wire_mode [OF linux_EINVAL demo_accepted] linux_EINVAL demo_accepted
  show ?thesis
    by (simp add: linux_flags wire_mode_spec_def regfile_port_def regfile_def)
qed

text \<open>
  C2. With a nonzero \<^verbatim>\<open>EINVAL\<close>, a call with a configuration returns, and it returns
  \<^verbatim>\<open>-EINVAL\<close> exactly when the enabled, receive-during-transmit and RTS-follows-send
  flags are all set, and 0 exactly when they are not. On the rejection the register
  has been read once and not written, the device is as the read left it, and the
  cached configuration and the bindings of the port are those before the call.
\<close>

theorem config_rs485_rejection:
  assumes "EINVAL h \<noteq> 0"
  shows "\<exists>status port'.
      ni16550_config_rs485 h port (Some cfg) = Inr (status, port') \<and>
      (status = - EINVAL h) =
        (rs485_enabled h cfg \<and> rx_during_tx h cfg \<and> rts_on_send h cfg) \<and>
      (status = 0) =
        (\<not> (rs485_enabled h cfg \<and> rx_during_tx h cfg \<and> rts_on_send h cfg)) \<and>
      (status = - EINVAL h \<longrightarrow>
         trace (regs port') = trace (regs port) @
           [Reg_read NI16550_PCR_OFFSET (reg_value (regs port) NI16550_PCR_OFFSET)] \<and>
         writes (trace (regs port')) = writes (trace (regs port)) \<and>
         device (regs port') = after_read (regs port) NI16550_PCR_OFFSET \<and>
         rs485 port' = rs485 port \<and>
         txvr_ops port' = txvr_ops port \<and> rs485_config port' = rs485_config port)"
  using assms by (simp add: config_unfold Let_def writes_def)

text \<open>
  With Linux's constants: the flags \<open>0x13\<close> (enabled, echo and auto) are rejected with
  \<open>-22\<close>, the trace holds the read alone, the cache still holds the flags \<open>0\<close>.
\<close>

theorem config_rs485_rejection_witness:
  "EINVAL linux_hdr \<noteq> 0 \<and>
   ni16550_config_rs485 linux_hdr (regfile_port (\<lambda>a. 0x4B) (rs485_cfg 0))
     (Some (rs485_cfg 0x13)) =
     Inr (- 22, \<lparr>regs = \<lparr>device = (\<lambda>a. 0x4B), read_reg = regfile_read,
                      write_reg = regfile_write,
                      trace = [Reg_read 0x0F 0x4B]\<rparr>,
              rs485 = rs485_cfg 0, txvr_ops = None, rs485_config = None\<rparr>) \<and>
   writes [Reg_read (0x0F::int) 0x4B] = []"
proof -
  from config_rs485_rejection [OF linux_EINVAL,
      of "regfile_port (\<lambda>a. 0x4B) (rs485_cfg 0)" "rs485_cfg 0x13"]
  obtain status port' where
    r: "ni16550_config_rs485 linux_hdr (regfile_port (\<lambda>a. 0x4B) (rs485_cfg 0))
          (Some (rs485_cfg 0x13)) = Inr (status, port')"
    and s: "status = - EINVAL linux_hdr"
    and t: "trace (regs port') = [Reg_read NI16550_PCR_OFFSET 0x4B]"
    and w: "writes (trace (regs port')) = []"
    by (auto simp: linux_flags_rejected regfile_port_def regfile_def regfile_read_def
        reg_value_def after_read_def writes_def)
  with demo_rejected linux_EINVAL show ?thesis by (simp add: NI16550_PCR_OFFSET_def)
qed

text \<open>
  C3. With a nonzero \<^verbatim>\<open>EINVAL\<close>, every sequence of calls with configurations runs to
  its end; each call returns \<^verbatim>\<open>-EINVAL\<close> or 0 as C2 says; and the cached configuration
  after the last call is, as a whole record, the argument of the last call that
  returned 0, or the cache before the sequence when no call did. For one call: the
  cache after it is its argument when it returned 0 and the cache before it
  otherwise.
\<close>

theorem config_rs485_cache:
  assumes "EINVAL h \<noteq> 0"
  shows "(\<exists>calls port'.
      config_calls h port cfgs = Inr (calls, port') \<and>
      map fst calls = cfgs \<and>
      map snd calls =
        map (\<lambda>cfg. if rs485_enabled h cfg \<and> rx_during_tx h cfg \<and> rts_on_send h cfg
                    then - EINVAL h else 0) cfgs \<and>
      rs485 port' = last_success (rs485 port) calls) \<and>
    (\<exists>status port'.
      ni16550_config_rs485 h port (Some cfg) = Inr (status, port') \<and>
      rs485 port' = (if status = 0 then cfg else rs485 port))"
proof
  show "\<exists>calls port'.
      config_calls h port cfgs = Inr (calls, port') \<and>
      map fst calls = cfgs \<and>
      map snd calls =
        map (\<lambda>cfg. if rs485_enabled h cfg \<and> rx_during_tx h cfg \<and> rts_on_send h cfg
                    then - EINVAL h else 0) cfgs \<and>
      rs485 port' = last_success (rs485 port) calls"
  proof (induction cfgs arbitrary: port)
    case Nil
    show ?case by simp
  next
    case (Cons cfg cfgs)
    let ?s = "if rs485_enabled h cfg \<and> rx_during_tx h cfg \<and> rts_on_send h cfg
              then - EINVAL h else 0"
    from config_status_cache [of h port cfg] obtain port1 where
      c: "ni16550_config_rs485 h port (Some cfg) = Inr (?s, port1)" and
      r: "rs485 port1 =
         (if rs485_enabled h cfg \<and> rx_during_tx h cfg \<and> rts_on_send h cfg
          then rs485 port else cfg)"
      by blast
    from Cons.IH [of port1] obtain calls port2 where
      ih: "config_calls h port1 cfgs = Inr (calls, port2)"
        "map fst calls = cfgs"
        "map snd calls =
          map (\<lambda>cfg. if rs485_enabled h cfg \<and> rx_during_tx h cfg \<and> rts_on_send h cfg
                      then - EINVAL h else 0) cfgs"
        "rs485 port2 = last_success (rs485 port1) calls"
      by blast
    have "config_calls h port (cfg # cfgs) = Inr ((cfg, ?s) # calls, port2)"
      using c ih(1) by simp
    moreover have "rs485 port2 = last_success (rs485 port) ((cfg, ?s) # calls)"
      using ih(4) r assms by simp
    ultimately show ?case using ih(2,3) by simp
  qed
next
  show "\<exists>status port'.
      ni16550_config_rs485 h port (Some cfg) = Inr (status, port') \<and>
      rs485 port' = (if status = 0 then cfg else rs485 port)"
    using assms by (simp add: config_unfold Let_def)
qed

text \<open>
  With Linux's constants: the flags \<open>0x11\<close> are accepted, then \<open>0x13\<close> are rejected;
  the cache holds \<open>0x11\<close>.
\<close>

theorem config_rs485_cache_witness:
  "EINVAL linux_hdr \<noteq> 0 \<and>
   (\<exists>port'. config_calls linux_hdr (regfile_port (\<lambda>a. 0x4B) (rs485_cfg 0))
       [rs485_cfg 0x11, rs485_cfg 0x13] =
       Inr ([(rs485_cfg 0x11, 0), (rs485_cfg 0x13, - 22)], port') \<and>
     rs485 port' = rs485_cfg 0x11)"
proof -
  from config_rs485_cache [OF linux_EINVAL, THEN conjunct1,
      of "regfile_port (\<lambda>a. 0x4B) (rs485_cfg 0)" "[rs485_cfg 0x11, rs485_cfg 0x13]"]
  obtain calls port' where
    r: "config_calls linux_hdr (regfile_port (\<lambda>a. 0x4B) (rs485_cfg 0))
       [rs485_cfg 0x11, rs485_cfg 0x13] = Inr (calls, port')"
    and f: "map fst calls = [rs485_cfg 0x11, rs485_cfg 0x13]"
    and s: "map snd calls = [0, - 22]"
    and c: "rs485 port' = last_success (rs485 (regfile_port (\<lambda>a. 0x4B) (rs485_cfg 0))) calls"
    by (auto simp: linux_flags linux_flags_rejected linux_EINVAL_22)
  from f s have "calls = [(rs485_cfg 0x11, 0), (rs485_cfg 0x13, - 22)]"
    by (auto simp: map_eq_Cons_conv)
  with r c linux_EINVAL show ?thesis by simp
qed

text \<open>
  C6. When the call accepts a configuration, the byte it writes to the mode-control
  register differs from the byte it read only in the wire-mode field: the field is
  the encoding chosen, and outside the field (bits 2 to 7, the transceiver enable bit
  and the termination bit among them) every bit is the bit read. The device gets
  that one write after the read, and where the device keeps the register, a read
  after the call answers the byte written.
\<close>

theorem config_rs485_frame:
  assumes "EINVAL h \<noteq> 0"
    and "ni16550_config_rs485 h port (Some cfg) = Inr (0, port')"
  shows "\<exists>w. regs port' = (regs port)
            \<lparr>device := write_reg (regs port) (after_read (regs port) NI16550_PCR_OFFSET)
                         NI16550_PCR_OFFSET w,
             trace := trace (regs port) @
               [Reg_read NI16550_PCR_OFFSET (reg_value (regs port) NI16550_PCR_OFFSET),
                Reg_write NI16550_PCR_OFFSET w]\<rparr> \<and>
          w AND NI16550_PCR_WIRE_MODE_MASK =
            wire_mode_spec (rs485_enabled h cfg) (rx_during_tx h cfg) (rts_on_send h cfg) \<and>
          w AND NOT NI16550_PCR_WIRE_MODE_MASK =
            reg_value (regs port) NI16550_PCR_OFFSET AND NOT NI16550_PCR_WIRE_MODE_MASK \<and>
          w AND NI16550_PCR_TXVR_ENABLE_BIT =
            reg_value (regs port) NI16550_PCR_OFFSET AND NI16550_PCR_TXVR_ENABLE_BIT \<and>
          w AND NI16550_PCR_RS485_TERMINATION_BIT =
            reg_value (regs port) NI16550_PCR_OFFSET AND NI16550_PCR_RS485_TERMINATION_BIT \<and>
          (\<forall>n. bit w (n + 2) = bit (reg_value (regs port) NI16550_PCR_OFFSET) (n + 2)) \<and>
          (keeps_register (regs port) NI16550_PCR_OFFSET \<longrightarrow>
             reg_value (regs port') NI16550_PCR_OFFSET = w)"
proof -
  let ?v = "reg_value (regs port) NI16550_PCR_OFFSET"
  let ?k = "wire_mode_spec (rs485_enabled h cfg) (rx_during_tx h cfg) (rts_on_send h cfg)"
  let ?w = "(?v AND NOT NI16550_PCR_WIRE_MODE_MASK) OR ?k"
  from assms have ok: "\<not> (rs485_enabled h cfg \<and> rx_during_tx h cfg \<and> rts_on_send h cfg)"
    by (auto simp: config_unfold Let_def split: if_splits)
  with assms(2) have io: "regs port' = (regs port)
            \<lparr>device := write_reg (regs port) (after_read (regs port) NI16550_PCR_OFFSET)
                         NI16550_PCR_OFFSET ?w,
             trace := trace (regs port) @
               [Reg_read NI16550_PCR_OFFSET ?v, Reg_write NI16550_PCR_OFFSET ?w]\<rparr>"
    by (auto simp: config_unfold Let_def)
  have f: "?w AND NI16550_PCR_WIRE_MODE_MASK = ?k"
    by (rule field_replaced) (rule wire_mode_codes)
  have g: "?w AND NOT NI16550_PCR_WIRE_MODE_MASK = ?v AND NOT NI16550_PCR_WIRE_MODE_MASK"
    by (rule field_frame) (rule wire_mode_codes)
  have k: "keeps_register (regs port) NI16550_PCR_OFFSET \<longrightarrow>
      reg_value (regs port') NI16550_PCR_OFFSET = ?w"
    by (simp add: io keeps_register_def reg_value_def)
  from io f g mask_frame_enable [OF g] mask_frame_termination [OF g] mask_frame_bits [OF g] k
  show ?thesis by blast
qed

text \<open>
  With Linux's constants: \<open>0x4B\<close> is read (enable and termination bits set, field 3),
  \<open>0x49\<close> is written (the same bits set, field 1).
\<close>

theorem config_rs485_frame_witness:
  "EINVAL linux_hdr \<noteq> 0 \<and>
   ni16550_config_rs485 linux_hdr (regfile_port (\<lambda>a. 0x4B) (rs485_cfg 0))
     (Some (rs485_cfg 0x11)) =
     Inr (0, \<lparr>regs = \<lparr>device = (\<lambda>a. 0x4B)(0x0F := 0x49), read_reg = regfile_read,
                      write_reg = regfile_write,
                      trace = [Reg_read 0x0F 0x4B, Reg_write 0x0F 0x49]\<rparr>,
              rs485 = rs485_cfg 0x11, txvr_ops = None, rs485_config = None\<rparr>) \<and>
   (0x49 :: u8) AND NI16550_PCR_WIRE_MODE_MASK = 1 \<and>
   (0x49 :: u8) AND NOT NI16550_PCR_WIRE_MODE_MASK = 0x4B AND NOT NI16550_PCR_WIRE_MODE_MASK \<and>
   (0x49 :: u8) AND NI16550_PCR_TXVR_ENABLE_BIT = 0x4B AND NI16550_PCR_TXVR_ENABLE_BIT \<and>
   (0x49 :: u8) AND NI16550_PCR_RS485_TERMINATION_BIT =
      0x4B AND NI16550_PCR_RS485_TERMINATION_BIT"
proof -
  from config_rs485_frame [OF linux_EINVAL demo_accepted] obtain w where
    "[Reg_read (0x0F::int) 0x4B, Reg_write 0x0F 0x49] =
       [Reg_read NI16550_PCR_OFFSET 0x4B, Reg_write NI16550_PCR_OFFSET w]"
    "w AND NI16550_PCR_WIRE_MODE_MASK = 1"
    "w AND NOT NI16550_PCR_WIRE_MODE_MASK = 0x4B AND NOT NI16550_PCR_WIRE_MODE_MASK"
    "w AND NI16550_PCR_TXVR_ENABLE_BIT = 0x4B AND NI16550_PCR_TXVR_ENABLE_BIT"
    "w AND NI16550_PCR_RS485_TERMINATION_BIT = 0x4B AND NI16550_PCR_RS485_TERMINATION_BIT"
    by (auto simp: linux_flags wire_mode_spec_def regfile_port_def regfile_def
        regfile_read_def reg_value_def)
  then show ?thesis using linux_EINVAL demo_accepted by simp
qed

text \<open>
  C9. On a device that keeps the mode-control register, enable called twice leaves
  in the register the value it leaves when called once, and so does disable; and
  after enable, disable, enable the wire-mode field of the register is the field
  before the three calls.
\<close>

theorem transceivers_idempotent:
  assumes "keeps_register (regs port) NI16550_PCR_OFFSET"
  shows "let enable = (\<lambda>p. snd (ni16550_enable_transceivers p));
             disable = (\<lambda>p. snd (ni16550_disable_transceivers p));
             pcr = (\<lambda>p. reg_value (regs p) NI16550_PCR_OFFSET)
         in pcr (enable (enable port)) = pcr (enable port) \<and>
            pcr (disable (disable port)) = pcr (disable port) \<and>
            pcr (enable (disable (enable port))) AND NI16550_PCR_WIRE_MODE_MASK =
              pcr port AND NI16550_PCR_WIRE_MODE_MASK"
proof -
  let ?e = "\<lambda>p. snd (ni16550_enable_transceivers p)"
  let ?d = "\<lambda>p. snd (ni16550_disable_transceivers p)"
  let ?pcr = "\<lambda>p. reg_value (regs p) NI16550_PCR_OFFSET"
  have ke: "keeps_register (regs (?e port)) NI16550_PCR_OFFSET"
    using assms by (simp add: enable_keeps)
  have kd: "keeps_register (regs (?d port)) NI16550_PCR_OFFSET"
    using assms by (simp add: disable_keeps)
  have kde: "keeps_register (regs (?d (?e port))) NI16550_PCR_OFFSET"
    using ke by (simp add: disable_keeps)
  have 1: "?pcr (?e (?e port)) = ?pcr (?e port)"
    by (simp add: enable_value [OF ke] enable_value [OF assms] or.assoc)
  have 2: "?pcr (?d (?d port)) = ?pcr (?d port)"
    by (simp add: disable_value [OF kd] disable_value [OF assms] and.assoc)
  have 3: "?pcr (?e (?d (?e port))) AND NI16550_PCR_WIRE_MODE_MASK =
      ?pcr port AND NI16550_PCR_WIRE_MODE_MASK"
    by (simp only: enable_value [OF kde] disable_value [OF ke] enable_value [OF assms]
        enable_frame_mask disable_frame_mask)
  from 1 2 3 show ?thesis by (simp add: Let_def)
qed

text \<open>
  On a register file: from \<open>0x43\<close> enable leaves \<open>0x4B\<close>, once or twice; from \<open>0x4B\<close>
  disable leaves \<open>0x43\<close>, once or twice; the field stays 3.
\<close>

theorem transceivers_idempotent_witness:
  "keeps_register (regs (regfile_port (\<lambda>a. 0x43) (rs485_cfg 0))) NI16550_PCR_OFFSET \<and>
   reg_value (regs (snd (ni16550_enable_transceivers
      (regfile_port (\<lambda>a. 0x43) (rs485_cfg 0))))) NI16550_PCR_OFFSET = 0x4B \<and>
   reg_value (regs (snd (ni16550_enable_transceivers (snd (ni16550_enable_transceivers
      (regfile_port (\<lambda>a. 0x43) (rs485_cfg 0))))))) NI16550_PCR_OFFSET = 0x4B \<and>
   reg_value (regs (snd (ni16550_disable_transceivers
      (regfile_port (\<lambda>a. 0x4B) (rs485_cfg 0))))) NI16550_PCR_OFFSET = 0x43 \<and>
   reg_value (regs (snd (ni16550_disable_transceivers (snd (ni16550_disable_transceivers
      (regfile_port (\<lambda>a. 0x4B) (rs485_cfg 0))))))) NI16550_PCR_OFFSET = 0x43 \<and>
   reg_value (regs (snd (ni16550_enable_transceivers (snd (ni16550_disable_transceivers
      (snd (ni16550_enable_transceivers
        (regfile_port (\<lambda>a. 0x43) (rs485_cfg 0))))))))) NI16550_PCR_OFFSET
      AND NI16550_PCR_WIRE_MODE_MASK = 3"
proof -
  have e: "reg_value (regs (snd (ni16550_enable_transceivers
      (regfile_port (\<lambda>a. 0x43) (rs485_cfg 0))))) NI16550_PCR_OFFSET = 0x4B"
    by (simp add: enable_unfold reg_value_def regfile_port_def regfile_def regfile_read_def
        regfile_write_def NI16550_PCR_TXVR_ENABLE_BIT_def)
  have d: "reg_value (regs (snd (ni16550_disable_transceivers
      (regfile_port (\<lambda>a. 0x4B) (rs485_cfg 0))))) NI16550_PCR_OFFSET = 0x43"
    by (simp add: disable_unfold reg_value_def regfile_port_def regfile_def regfile_read_def
        regfile_write_def NI16550_PCR_TXVR_ENABLE_BIT_def)
  have v: "reg_value (regs (regfile_port (\<lambda>a. 0x43) (rs485_cfg 0))) NI16550_PCR_OFFSET = 0x43"
    by (simp add: reg_value_def regfile_port_def regfile_def regfile_read_def)
  have m: "(0x43 :: u8) AND NI16550_PCR_WIRE_MODE_MASK = 3"
    by (simp add: NI16550_PCR_WIRE_MODE_MASK_def)
  from transceivers_idempotent [OF regfile_keeps, of "\<lambda>a. 0x43" "rs485_cfg 0"]
    transceivers_idempotent [OF regfile_keeps, of "\<lambda>a. 0x4B" "rs485_cfg 0"]
    regfile_keeps [of "\<lambda>a. 0x43" "rs485_cfg 0" NI16550_PCR_OFFSET] e d v m
  show ?thesis by (simp add: Let_def)
qed

text \<open>
  C8. Port setup binds the operation table of this driver, whose two entries call
  the enable and the disable function, and binds the configuration function of this
  driver; and it sets the cached flags to enabled or-ed with RTS-follows-send. Where
  the two flags are nonzero and the receive-during-transmit flag shares no bit with
  them, as in the kernel's header, the cached configuration then reads enabled,
  RTS-follows-send and no receive-during-transmit, which is the 2-wire auto mode.
\<close>

theorem port_setup_binds_and_seeds:
  assumes "SER_RS485_ENABLED h \<noteq> 0"
    and "SER_RS485_RTS_ON_SEND h \<noteq> 0"
    and "SER_RS485_RX_DURING_TX h AND (SER_RS485_ENABLED h OR SER_RS485_RTS_ON_SEND h) = 0"
  shows "let port' = ni16550_port_setup h port
         in txvr_ops port' = Some ni16550_txvr_ops \<and>
            call_txvr (enable_transceivers ni16550_txvr_ops) p =
              ni16550_enable_transceivers p \<and>
            call_txvr (disable_transceivers ni16550_txvr_ops) p =
              ni16550_disable_transceivers p \<and>
            rs485_config port' = Some Ni16550_config_rs485 \<and>
            call_rs485_config h Ni16550_config_rs485 p r = ni16550_config_rs485 h p r \<and>
            flags (rs485 port') = SER_RS485_ENABLED h OR SER_RS485_RTS_ON_SEND h \<and>
            rs485_enabled h (rs485 port') \<and>
            rts_on_send h (rs485 port') \<and>
            \<not> rx_during_tx h (rs485 port') \<and>
            wire_mode_spec (rs485_enabled h (rs485 port')) (rx_during_tx h (rs485 port'))
              (rts_on_send h (rs485 port')) = NI16550_PCR_AUTO_RS485"
proof -
  let ?f = "SER_RS485_ENABLED h OR SER_RS485_RTS_ON_SEND h"
  have f: "flags (rs485 (ni16550_port_setup h port)) = ?f"
    by (simp add: ni16550_port_setup_def)
  have e: "rs485_enabled h (rs485 (ni16550_port_setup h port))"
    using assms(1) by (simp add: rs485_enabled_def f or_and_left)
  have t: "rts_on_send h (rs485 (ni16550_port_setup h port))"
    using assms(2) by (simp add: rts_on_send_def f or_and_left)
  have x: "\<not> rx_during_tx h (rs485 (ni16550_port_setup h port))"
    using assms(3) by (simp add: rx_during_tx_def f and.commute)
  have b: "txvr_ops (ni16550_port_setup h port) = Some ni16550_txvr_ops"
    "rs485_config (ni16550_port_setup h port) = Some Ni16550_config_rs485"
    by (simp_all add: ni16550_port_setup_def)
  have c: "call_txvr (enable_transceivers ni16550_txvr_ops) p = ni16550_enable_transceivers p"
    "call_txvr (disable_transceivers ni16550_txvr_ops) p = ni16550_disable_transceivers p"
    by (simp_all add: ni16550_txvr_ops_def)
  from f e t x b c show ?thesis
    by (simp add: Let_def wire_mode_spec_def NI16550_PCR_AUTO_RS485_def)
qed

text \<open>
  With Linux's constants, on a port whose cache holds the flags \<open>0x10\<close> and nothing
  bound: after setup the cache holds the flags \<open>3\<close>.
\<close>

theorem port_setup_binds_and_seeds_witness:
  "SER_RS485_ENABLED linux_hdr \<noteq> 0 \<and> SER_RS485_RTS_ON_SEND linux_hdr \<noteq> 0 \<and>
   SER_RS485_RX_DURING_TX linux_hdr AND
     (SER_RS485_ENABLED linux_hdr OR SER_RS485_RTS_ON_SEND linux_hdr) = 0 \<and>
   ni16550_port_setup linux_hdr (regfile_port (\<lambda>a. 0x4B) (rs485_cfg 0x10)) =
     \<lparr>regs = regfile (\<lambda>a. 0x4B), rs485 = rs485_cfg 3,
      txvr_ops = Some \<lparr>enable_transceivers = Ni16550_enable_transceivers,
                        disable_transceivers = Ni16550_disable_transceivers\<rparr>,
      rs485_config = Some Ni16550_config_rs485\<rparr> \<and>
   rs485_enabled linux_hdr (rs485_cfg 3) \<and> rts_on_send linux_hdr (rs485_cfg 3) \<and>
   \<not> rx_during_tx linux_hdr (rs485_cfg 3)"
proof -
  have 1: "SER_RS485_ENABLED linux_hdr \<noteq> 0" by (simp add: linux_hdr_def)
  have 2: "SER_RS485_RTS_ON_SEND linux_hdr \<noteq> 0" by (simp add: linux_hdr_def)
  have 3: "SER_RS485_RX_DURING_TX linux_hdr AND
     (SER_RS485_ENABLED linux_hdr OR SER_RS485_RTS_ON_SEND linux_hdr) = 0"
    by (simp add: linux_hdr_def)
  have s: "ni16550_port_setup linux_hdr (regfile_port (\<lambda>a. 0x4B) (rs485_cfg 0x10)) =
     \<lparr>regs = regfile (\<lambda>a. 0x4B), rs485 = rs485_cfg 3,
      txvr_ops = Some \<lparr>enable_transceivers = Ni16550_enable_transceivers,
                        disable_transceivers = Ni16550_disable_transceivers\<rparr>,
      rs485_config = Some Ni16550_config_rs485\<rparr>"
    by (simp add: ni16550_port_setup_def ni16550_txvr_ops_def regfile_port_def rs485_cfg_def
        linux_hdr_def)
  from port_setup_binds_and_seeds [OF 1 2 3,
      where port = "regfile_port (\<lambda>a. 0x4B) (rs485_cfg 0x10)"
        and p = "regfile_port (\<lambda>a. 0x4B) (rs485_cfg 0x10)" and r = None]
    1 2 3 s
  show ?thesis by (simp add: Let_def)
qed

text \<open>
  C10. Port setup assigns the flags of the cached configuration and no other field
  of it: the cache after setup is the cache before with the flags replaced, so the
  delays are those before the call. The registers are not touched.
\<close>

theorem port_setup_keeps_timing:
  "rs485 (ni16550_port_setup h port) =
     (rs485 port)\<lparr>flags := SER_RS485_ENABLED h OR SER_RS485_RTS_ON_SEND h\<rparr> \<and>
   delay_rts_before_send (rs485 (ni16550_port_setup h port)) =
     delay_rts_before_send (rs485 port) \<and>
   delay_rts_after_send (rs485 (ni16550_port_setup h port)) =
     delay_rts_after_send (rs485 port) \<and>
   regs (ni16550_port_setup h port) = regs port"
  by (simp add: ni16550_port_setup_def)

text \<open>
  C4. The result of the mode detection is a function of the byte the capability
  register answers: false when the two class bits (bits 0 and 1) are both clear,
  whatever the other bits; when both are set, true exactly when the mode bit (bit 4)
  is clear; otherwise true exactly when the class is RS-232 only (bit 0 set, bit 1
  clear), so false for RS-485 only. In one formula: bit 0 is set, and bits 1 and 4
  are not both set. The call reads that register once and writes nothing.
\<close>

theorem is_rs232_mode_decision:
  "let pmr = reg_value io (iobase + NI16550_PMR_OFFSET);
       r = is_rs232_mode io iobase
   in fst r =
        (if \<not> bit pmr 0 \<and> \<not> bit pmr 1 then False
         else if bit pmr 0 \<and> bit pmr 1 then \<not> bit pmr 4
         else bit pmr 0 \<and> \<not> bit pmr 1) \<and>
      fst r = (bit pmr 0 \<and> \<not> (bit pmr 1 \<and> bit pmr 4)) \<and>
      snd r = io\<lparr>device := after_read io (iobase + NI16550_PMR_OFFSET),
                 trace := trace io @ [Reg_read (iobase + NI16550_PMR_OFFSET) pmr]\<rparr>"
  by (auto simp: is_rs232_mode_def inb_unfold Let_def cap_bits mode_bit
      NI16550_PMR_NOT_IMPL_def NI16550_PMR_CAP_DUAL_def NI16550_PMR_CAP_RS232_def
      NI16550_PMR_MODE_RS232_def)

text \<open>
  C5. The prescaler configuration makes these seven accesses, in this order, and no
  other: it reads LCR, writes the configuration-mode-B value to LCR, reads EFR, writes
  EFR with the enhanced-mode bit or-ed into the byte read, writes the LCR byte it read
  first back to LCR, writes the prescaler select value to SCR, and writes the
  prescaler to ICR. The byte written to EFR has the enable bit set and its other bits
  as read; EFR is not written again. The LCR is restored before SCR and ICR are
  written. The device receives the five writes in that order.
\<close>

theorem config_prescaler_sequence:
  "let lcr_addr = iobase + UART_LCR h;
       efr_addr = iobase + UART_EFR h;
       lcr = reg_value io lcr_addr;
       banked = write_reg io (after_read io lcr_addr) lcr_addr (UART_LCR_CONF_MODE_B h);
       efr = fst (read_reg io banked efr_addr);
       io' = ni16550_config_prescaler h io iobase prescaler
   in trace io' = trace io @
        [Reg_read lcr_addr lcr,
         Reg_write lcr_addr (UART_LCR_CONF_MODE_B h),
         Reg_read efr_addr efr,
         Reg_write efr_addr (efr OR UART_EFR_ECB h),
         Reg_write lcr_addr lcr,
         Reg_write (iobase + UART_SCR h) (UART_CPR h),
         Reg_write (iobase + UART_ICR h) prescaler] \<and>
      device io' =
        write_reg io
          (write_reg io
            (write_reg io
              (write_reg io (snd (read_reg io banked efr_addr)) efr_addr
                 (efr OR UART_EFR_ECB h))
              lcr_addr lcr)
            (iobase + UART_SCR h) (UART_CPR h))
          (iobase + UART_ICR h) prescaler \<and>
      (efr OR UART_EFR_ECB h) AND UART_EFR_ECB h = UART_EFR_ECB h \<and>
      (efr OR UART_EFR_ECB h) AND NOT (UART_EFR_ECB h) = efr AND NOT (UART_EFR_ECB h)"
  by (simp add: ni16550_config_prescaler_def inb_unfold outb_def io_out_def Let_def
      reg_value_def after_read_def or_and_left or_and_not split: prod.split)

end
